theory Spec2Isabelle
  imports Main "HOL-Library.AList" "HOL-Library.Sublist"
begin

section \<open>Values and documents\<close>

text \<open>
  The server of \<^verbatim>\<open>src/index.js\<close> moves JSON objects between HTTP requests and two
  collections of a document store. An object (a request body, a stored document, a
  response object) is an association list from field names to values, each name at
  most once; reading a property that is absent gives \<open>None\<close>, JavaScript's
  \<^verbatim>\<open>undefined\<close>. The values are the scalars that JSON and the store's driver
  produce; arrays and embedded documents are outside the modelled fragment. What the
  store does with an update whose keys are dotted paths is a parameter, not modelled.
\<close>

datatype objid = ObjectId string

datatype date = Millis int | InvalidDate

datatype val =
    VNull
  | VBool bool
  | VNum int
  | VStr string
  | VDate date
  | VId objid

type_synonym doc = "(string \<times> val) list"

text \<open>JavaScript truthiness, as used by every \<^verbatim>\<open>!x\<close> and \<^verbatim>\<open>if (x)\<close> of the handlers.\<close>

fun truthy :: "val option \<Rightarrow> bool" where
  "truthy None = False"
| "truthy (Some VNull) = False"
| "truthy (Some (VBool b)) = b"
| "truthy (Some (VNum n)) = (n \<noteq> 0)"
| "truthy (Some (VStr s)) = (s \<noteq> [])"
| "truthy (Some (VDate d)) = True"
| "truthy (Some (VId i)) = True"

text \<open>\<^verbatim>\<open>typeof\<close>, which the hashing library reports in its argument errors.\<close>

fun typeof :: "val option \<Rightarrow> string" where
  "typeof None = ''undefined''"
| "typeof (Some VNull) = ''object''"
| "typeof (Some (VBool b)) = ''boolean''"
| "typeof (Some (VNum n)) = ''number''"
| "typeof (Some (VStr s)) = ''string''"
| "typeof (Some (VDate d)) = ''object''"
| "typeof (Some (VId i)) = ''object''"

text \<open>
  An object literal whose property values may be \<^verbatim>\<open>undefined\<close>: serialising it as
  JSON drops those properties.
\<close>

fun obj :: "(string \<times> val option) list \<Rightarrow> doc" where
  "obj [] = []"
| "obj ((k, None) # kvs) = obj kvs"
| "obj ((k, Some v) # kvs) = (k, v) # obj kvs"

subsection \<open>Strings\<close>

text \<open>
  Strings are byte strings. \<open>ascii_lower\<close> lower-cases the ASCII letters and leaves
  every other byte as it is: it is exact on hexadecimal digits, where the identifier
  parser uses it. JavaScript's \<^verbatim>\<open>toLowerCase\<close>, which also maps capitals outside
  ASCII, is a parameter (see \<open>lib\<close> below).
\<close>

definition lower_char :: "char \<Rightarrow> char" where
  "lower_char c =
     (case map_of (zip ''ABCDEFGHIJKLMNOPQRSTUVWXYZ'' ''abcdefghijklmnopqrstuvwxyz'') c of
        None \<Rightarrow> c
      | Some l \<Rightarrow> l)"

definition ascii_lower :: "string \<Rightarrow> string" where
  "ascii_lower s = map lower_char s"

subsection \<open>Object identifiers\<close>

text \<open>
  \<^verbatim>\<open>new ObjectId(s)\<close> on a string accepts exactly the strings of 24 hexadecimal
  digits and throws otherwise; \<^verbatim>\<open>ObjectId.isValid(s)\<close> says whether the constructor
  accepts. An identifier is kept as its lower-case hexadecimal form, which is what
  \<^verbatim>\<open>toString()\<close> returns.
\<close>

definition is_hex :: "char \<Rightarrow> bool" where
  "is_hex c = (c \<in> set ''0123456789abcdefABCDEF'')"

definition ObjectId_isValid :: "string \<Rightarrow> bool" where
  "ObjectId_isValid s = (length s = 24 \<and> list_all is_hex s)"

fun toHexString :: "objid \<Rightarrow> string" where
  "toHexString (ObjectId h) = h"

section \<open>Exceptions and responses\<close>

text \<open>
  Every handler body sits in \<^verbatim>\<open>try { ... } catch (err) { res.status(500).send({ error:
  err.message }) }\<close>. The exceptions that the modelled fragment can raise are values of
  \<open>exn\<close>; the message of a library exception is represented by the exception itself.
\<close>

datatype exn =
    IllegalArguments string string
  | BcryptError string
  | TypeError string
  | BSONError
  | InvalidRegex string
  | DuplicateKey val
  | ImmutableField
  | PathNotViable string

datatype message = Msg string | ExnMessage exn

datatype response_body =
    ErrorBody message
  | SignupOk val
  | UserOk doc
  | Products "doc list"
  | Product doc
  | InsertAck val
  | UpdateAck nat nat
  | DeleteAck nat

record response =
  status :: nat
  body :: response_body

definition send :: "response_body \<Rightarrow> response" where
  "send b = \<lparr>status = 200, body = b\<rparr>"

definition fail :: "nat \<Rightarrow> string \<Rightarrow> response" where
  "fail code m = \<lparr>status = code, body = ErrorBody (Msg m)\<rparr>"

definition caught :: "exn \<Rightarrow> response" where
  "caught e = \<lparr>status = 500, body = ErrorBody (ExnMessage e)\<rparr>"

section \<open>Libraries and the environment of a request\<close>

text \<open>
  The functions of the libraries whose internals the server does not contain are
  parameters: the password hash (\<^verbatim>\<open>bcryptjs\<close>), the \<^verbatim>\<open>Date\<close> constructor, the
  conversions of numbers and dates to strings, \<^verbatim>\<open>String.prototype.toLowerCase\<close>,
  the store's regular expression engine with option \<^verbatim>\<open>i\<close> (\<open>None\<close> for a pattern
  it rejects, otherwise the unanchored search in a string), and what the store's
  \<^verbatim>\<open>$set\<close> does with a patch in which some key is not a plain top-level field name
  (a dotted path, a name the store refuses).
\<close>

record lib =
  bcrypt_hash :: "string \<Rightarrow> nat \<Rightarrow> string \<Rightarrow> string"
  bcrypt_compare :: "string \<Rightarrow> string \<Rightarrow> exn + bool"
  new_Date :: "val \<Rightarrow> date"
  num_toString :: "int \<Rightarrow> string"
  date_toString :: "date \<Rightarrow> string"
  toLowerCase :: "string \<Rightarrow> string"
  regex_i :: "string \<Rightarrow> (string \<Rightarrow> bool) option"
  set_paths :: "doc \<Rightarrow> doc \<Rightarrow> exn + doc"

text \<open>
  What a request draws from outside: the clock (\<^verbatim>\<open>new Date()\<close>), the random salt
  of \<^verbatim>\<open>bcrypt.hash(password, 10)\<close>, and the identifier the driver generates for an
  inserted document.
\<close>

record env =
  now :: date
  salt :: string
  fresh_id :: objid

definition ObjectId_new :: "string \<Rightarrow> exn + objid" where
  "ObjectId_new s =
     (if ObjectId_isValid s then Inr (ObjectId (ascii_lower s)) else Inl BSONError)"

text \<open>\<^verbatim>\<open>bcrypt.hash(s, 10)\<close>: the library rejects an argument that is not a string.\<close>

definition hash_password :: "lib \<Rightarrow> env \<Rightarrow> val option \<Rightarrow> exn + string" where
  "hash_password L E p =
     (case p of
        Some (VStr s) \<Rightarrow> Inr (bcrypt_hash L s 10 (salt E))
      | _ \<Rightarrow> Inl (IllegalArguments (typeof p) ''number''))"

text \<open>\<^verbatim>\<open>bcrypt.compare(s, hash)\<close>: both arguments must be strings.\<close>

definition compare_password :: "lib \<Rightarrow> val option \<Rightarrow> val option \<Rightarrow> exn + bool" where
  "compare_password L p h =
     (case (p, h) of
        (Some (VStr s), Some (VStr t)) \<Rightarrow> bcrypt_compare L s t
      | _ \<Rightarrow> Inl (IllegalArguments (typeof p) (typeof h)))"

text \<open>\<^verbatim>\<open>x.toString()\<close>; reading the method of \<^verbatim>\<open>undefined\<close> or \<^verbatim>\<open>null\<close> throws.\<close>

fun js_toString :: "lib \<Rightarrow> val option \<Rightarrow> exn + string" where
  "js_toString L None = Inl (TypeError ''toString of undefined'')"
| "js_toString L (Some VNull) = Inl (TypeError ''toString of null'')"
| "js_toString L (Some (VBool b)) = Inr (if b then ''true'' else ''false'')"
| "js_toString L (Some (VNum n)) = Inr (num_toString L n)"
| "js_toString L (Some (VStr s)) = Inr s"
| "js_toString L (Some (VDate d)) = Inr (date_toString L d)"
| "js_toString L (Some (VId i)) = Inr (toHexString i)"

section \<open>The document store\<close>

text \<open>
  A collection is the list of its documents in the store's natural order. The
  operations are the ones the handlers call. The store is taken to answer every
  call: a lost connection, which each handler would report as 500, is not modelled.
\<close>

text \<open>\<^verbatim>\<open>findOne({ k: v })\<close>: the first document whose field \<open>k\<close> equals \<open>v\<close>.\<close>

definition findOne :: "doc list \<Rightarrow> string \<Rightarrow> val \<Rightarrow> doc option" where
  "findOne coll k v = find (\<lambda>d. map_of d k = Some v) coll"

text \<open>
  \<^verbatim>\<open>insertOne(d)\<close>: the driver gives the document the generated \<^verbatim>\<open>_id\<close> when it
  has none, the store keeps \<^verbatim>\<open>_id\<close> as the first field and refuses an \<^verbatim>\<open>_id\<close>
  that is already in the collection. The result is the new collection and
  \<^verbatim>\<open>insertedId\<close>.
\<close>

definition has_id :: "doc list \<Rightarrow> val \<Rightarrow> bool" where
  "has_id coll i = list_ex (\<lambda>d. map_of d ''_id'' = Some i) coll"

definition insertOne :: "env \<Rightarrow> doc list \<Rightarrow> doc \<Rightarrow> exn + doc list \<times> val" where
  "insertOne E coll d =
     (let i = (case map_of d ''_id'' of
                 None \<Rightarrow> VId (fresh_id E)
               | Some VNull \<Rightarrow> VId (fresh_id E)
               | Some v \<Rightarrow> v)
      in if has_id coll i then Inl (DuplicateKey i)
         else Inr (coll @ [(''_id'', i) # AList.delete ''_id'' d], i))"

text \<open>
  \<^verbatim>\<open>updateOne({ _id: i }, { $set: p })\<close>: the first document with that \<^verbatim>\<open>_id\<close>
  is updated. The driver writes an invalid date as the date of 0 ms (\<open>bson\<close>). For a
  patch whose keys are all plain top-level field names the document gets every field
  of the patch, in place when it has the field and appended otherwise; what any other
  patch does is the parameter \<open>set_paths\<close>. The store refuses to change \<^verbatim>\<open>_id\<close>.
  The result carries \<^verbatim>\<open>matchedCount\<close> and \<^verbatim>\<open>modifiedCount\<close>.
\<close>

fun bson :: "val \<Rightarrow> val" where
  "bson (VDate InvalidDate) = VDate (Millis 0)"
| "bson v = v"

definition plain_name :: "string \<Rightarrow> bool" where
  "plain_name k =
     (case k of
        [] \<Rightarrow> False
      | c # cs \<Rightarrow> c \<noteq> CHR ''$'' \<and> CHR ''.'' \<notin> set k \<and> CHR 0x00 \<notin> set k)"

definition set_fields :: "doc \<Rightarrow> doc \<Rightarrow> doc" where
  "set_fields p d = fold (\<lambda>(k, v). AList.update k v) p d"

definition apply_set :: "lib \<Rightarrow> doc \<Rightarrow> doc \<Rightarrow> exn + doc" where
  "apply_set L p d =
     (if list_all plain_name (map fst p)
      then Inr (set_fields (map (\<lambda>(k, v). (k, bson v)) p) d)
      else set_paths L p d)"

fun updateOne :: "lib \<Rightarrow> doc list \<Rightarrow> val \<Rightarrow> doc \<Rightarrow> exn + doc list \<times> nat \<times> nat" where
  "updateOne L [] i p = Inr ([], 0, 0)"
| "updateOne L (d # ds) i p =
     (if map_of d ''_id'' = Some i
      then (case apply_set L p d of
              Inl err \<Rightarrow> Inl err
            | Inr d' \<Rightarrow>
                if d' = d then Inr (d # ds, 1, 0)
                else if map_of d' ''_id'' \<noteq> Some i then Inl ImmutableField
                else Inr (d' # ds, 1, 1))
      else (case updateOne L ds i p of
              Inl err \<Rightarrow> Inl err
            | Inr (ds', matched, modified) \<Rightarrow> Inr (d # ds', matched, modified)))"

text \<open>\<^verbatim>\<open>deleteOne({ _id: i })\<close>: removes the first document with that \<^verbatim>\<open>_id\<close>.\<close>

fun deleteOne :: "doc list \<Rightarrow> val \<Rightarrow> doc list \<times> nat" where
  "deleteOne [] i = ([], 0)"
| "deleteOne (d # ds) i =
     (if map_of d ''_id'' = Some i then (ds, 1)
      else (case deleteOne ds i of (ds', deleted) \<Rightarrow> (d # ds', deleted)))"

text \<open>
  \<^verbatim>\<open>find(query).toArray()\<close> for the queries that \<^verbatim>\<open>GET /products\<close> builds: a field
  is compared with a value, or searched with \<^verbatim>\<open>{ $regex: p, $options: "i" }\<close>. A
  regular expression applies to string fields only, and a pattern the engine rejects
  fails the whole query.
\<close>

datatype cond = Eq val | Regex string

type_synonym query = "(string \<times> cond) list"

fun cond_test :: "lib \<Rightarrow> cond \<Rightarrow> exn + (val option \<Rightarrow> bool)" where
  "cond_test L (Eq v) = Inr (\<lambda>x. x = Some v)"
| "cond_test L (Regex p) =
     (case regex_i L p of
        None \<Rightarrow> Inl (InvalidRegex p)
      | Some m \<Rightarrow> Inr (\<lambda>x. case x of Some (VStr s) \<Rightarrow> m s | _ \<Rightarrow> False))"

fun compile :: "lib \<Rightarrow> query \<Rightarrow> exn + (doc \<Rightarrow> bool)" where
  "compile L [] = Inr (\<lambda>d. True)"
| "compile L ((k, c) # q) =
     (case cond_test L c of
        Inl err \<Rightarrow> Inl err
      | Inr t \<Rightarrow>
          (case compile L q of
             Inl err \<Rightarrow> Inl err
           | Inr P \<Rightarrow> Inr (\<lambda>d. t (map_of d k) \<and> P d)))"

definition find_docs :: "lib \<Rightarrow> doc list \<Rightarrow> query \<Rightarrow> exn + doc list" where
  "find_docs L coll q =
     (case compile L q of Inl err \<Rightarrow> Inl err | Inr P \<Rightarrow> Inr (filter P coll))"

section \<open>Account routes\<close>

text \<open>
  \<^verbatim>\<open>POST /signup\<close> (lines 36--74). \<open>SignupOk i\<close> is the body
  \<^verbatim>\<open>{ success: true, message: "User registered successfully", userId: i }\<close>.
\<close>

definition signup :: "lib \<Rightarrow> env \<Rightarrow> doc \<Rightarrow> doc list \<Rightarrow> doc list \<times> response" where
  "signup L E req users =
     (let name = map_of req ''name'';
          email = map_of req ''email'';
          username = map_of req ''username'';
          password = map_of req ''password''
      in if \<not> truthy name \<or> \<not> truthy email \<or> \<not> truthy username \<or> \<not> truthy password
         then (users, fail 400 ''All fields are required'')
         else (case email of
                 None \<Rightarrow> (users, fail 400 ''All fields are required'')
               | Some e \<Rightarrow>
                   (case findOne users ''email'' e of
                      Some existingUser \<Rightarrow> (users, fail 409 ''Email already registered'')
                    | None \<Rightarrow>
                        (case hash_password L E password of
                           Inl err \<Rightarrow> (users, caught err)
                         | Inr hashedPassword \<Rightarrow>
                             (let newUser =
                                    obj [(''name'', name), (''email'', email),
                                         (''username'', username),
                                         (''password'', Some (VStr hashedPassword)),
                                         (''createdAt'', Some (VDate (now E)))]
                              in case insertOne E users newUser of
                                   Inl err \<Rightarrow> (users, caught err)
                                 | Inr (users', insertedId) \<Rightarrow>
                                     (users', send (SignupOk insertedId)))))))"

text \<open>
  \<^verbatim>\<open>POST /login\<close> (lines 77--114). The handler only reads the collection.
  \<open>UserOk u\<close> is the body \<^verbatim>\<open>{ success: true, user: u }\<close>.
\<close>

definition login :: "lib \<Rightarrow> doc \<Rightarrow> doc list \<Rightarrow> response" where
  "login L req users =
     (let email = map_of req ''email'';
          password = map_of req ''password''
      in if \<not> truthy email \<or> \<not> truthy password
         then fail 400 ''Email and password required''
         else (case email of
                 Some (VStr e) \<Rightarrow>
                   (case findOne users ''email'' (VStr (toLowerCase L e)) of
                      None \<Rightarrow> fail 401 ''Invalid credentials''
                    | Some user \<Rightarrow>
                        (case compare_password L password (map_of user ''password'') of
                           Inl err \<Rightarrow> caught err
                         | Inr isMatch \<Rightarrow>
                             if \<not> isMatch then fail 401 ''Invalid credentials''
                             else (case js_toString L (map_of user ''_id'') of
                                     Inl err \<Rightarrow> caught err
                                   | Inr i \<Rightarrow>
                                       send (UserOk (obj
                                         [(''id'', Some (VStr i)),
                                          (''name'', map_of user ''name''),
                                          (''email'', map_of user ''email''),
                                          (''username'', map_of user ''username'')])))))
               | _ \<Rightarrow> caught (TypeError ''email.toLowerCase is not a function'')))"

text \<open>
  \<^verbatim>\<open>POST /google-signup\<close> (lines 117--145). On the creating path the driver has
  added \<^verbatim>\<open>_id\<close> to \<^verbatim>\<open>newUser\<close> before the handler spreads it into the response.
\<close>

definition googleSignup :: "lib \<Rightarrow> env \<Rightarrow> doc \<Rightarrow> doc list \<Rightarrow> doc list \<times> response" where
  "googleSignup L E req users =
     (let email = map_of req ''email'';
          name = map_of req ''name'';
          googleId = map_of req ''googleId''
      in if \<not> truthy email \<or> \<not> truthy name \<or> \<not> truthy googleId
         then (users, fail 400 ''Missing required fields'')
         else (case email of
                 None \<Rightarrow> (users, fail 400 ''Missing required fields'')
               | Some e \<Rightarrow>
                   (case findOne users ''email'' e of
                      Some user \<Rightarrow> (users, send (UserOk user))
                    | None \<Rightarrow>
                        (let newUser =
                               obj [(''name'', name), (''email'', email),
                                    (''googleId'', googleId),
                                    (''createdAt'', Some (VDate (now E)))]
                         in case insertOne E users newUser of
                              Inl err \<Rightarrow> (users, caught err)
                            | Inr (users', insertedId) \<Rightarrow>
                                (case js_toString L (Some insertedId) of
                                   Inl err \<Rightarrow> (users', caught err)
                                 | Inr i \<Rightarrow>
                                     (users',
                                      send (UserOk (newUser @
                                        [(''_id'', insertedId), (''id'', VStr i)]))))))))"

section \<open>Catalog routes\<close>

text \<open>
  \<^verbatim>\<open>GET /products\<close> (lines 151--169). A query parameter is a string when the URL
  carries it; \<^verbatim>\<open>if (category)\<close> is false for an absent and for an empty one.
\<close>

fun given :: "string option \<Rightarrow> bool" where
  "given None = False"
| "given (Some s) = (s \<noteq> [])"

definition build_query :: "string option \<Rightarrow> string option \<Rightarrow> query" where
  "build_query category search =
     (case category of
        None \<Rightarrow> []
      | Some c \<Rightarrow> if given category then [(''category'', Eq (VStr c))] else []) @
     (case search of
        None \<Rightarrow> []
      | Some s \<Rightarrow> if given search then [(''title'', Regex s)] else [])"

definition listProducts :: "lib \<Rightarrow> string option \<Rightarrow> string option \<Rightarrow> doc list \<Rightarrow> response" where
  "listProducts L category search products =
     (case find_docs L products (build_query category search) of
        Inl err \<Rightarrow> caught err
      | Inr ds \<Rightarrow> send (Products ds))"

text \<open>\<^verbatim>\<open>GET /product/:id\<close> (lines 172--184).\<close>

definition getProduct :: "string \<Rightarrow> doc list \<Rightarrow> response" where
  "getProduct ident products =
     (case ObjectId_new ident of
        Inl err \<Rightarrow> caught err
      | Inr i \<Rightarrow>
          (case findOne products ''_id'' (VId i) of
             None \<Rightarrow> fail 404 ''Product not found''
           | Some product \<Rightarrow> send (Product product)))"

text \<open>\<^verbatim>\<open>POST /product\<close> (lines 187--195).\<close>

definition createProduct :: "env \<Rightarrow> doc \<Rightarrow> doc list \<Rightarrow> doc list \<times> response" where
  "createProduct E newProduct products =
     (case insertOne E products newProduct of
        Inl err \<Rightarrow> (products, caught err)
      | Inr (products', insertedId) \<Rightarrow> (products', send (InsertAck insertedId)))"

text \<open>
  \<^verbatim>\<open>PATCH /product/:id\<close> (lines 198--225). \<open>coerce_date\<close> is lines 209--211: the
  field is replaced by a date only when its value is truthy.
\<close>

definition coerce_date :: "lib \<Rightarrow> doc \<Rightarrow> doc" where
  "coerce_date L updateData =
     (case map_of updateData ''released_date'' of
        None \<Rightarrow> updateData
      | Some v \<Rightarrow>
          if truthy (Some v)
          then AList.update ''released_date'' (VDate (new_Date L v)) updateData
          else updateData)"

definition updateProduct :: "lib \<Rightarrow> string \<Rightarrow> doc \<Rightarrow> doc list \<Rightarrow> doc list \<times> response" where
  "updateProduct L ident req products =
     (if \<not> ObjectId_isValid ident then (products, fail 400 ''Invalid product ID'')
      else (let updateData = coerce_date L req
            in case ObjectId_new ident of
                 Inl err \<Rightarrow> (products, caught err)
               | Inr i \<Rightarrow>
                   (case updateOne L products (VId i) updateData of
                      Inl err \<Rightarrow> (products, caught err)
                    | Inr (products', matched, modified) \<Rightarrow>
                        (products', send (UpdateAck matched modified)))))"

text \<open>\<^verbatim>\<open>DELETE /product/:id\<close> (lines 228--238).\<close>

definition deleteProduct :: "string \<Rightarrow> doc list \<Rightarrow> doc list \<times> response" where
  "deleteProduct ident products =
     (case ObjectId_new ident of
        Inl err \<Rightarrow> (products, caught err)
      | Inr i \<Rightarrow>
          (case deleteOne products (VId i) of
             (products', deleted) \<Rightarrow> (products', send (DeleteAck deleted))))"

section \<open>A library instance for concrete requests\<close>

text \<open>
  The regular expression engine on the patterns made of ordinary characters and
  \<^verbatim>\<open>.\<close>: an ordinary character matches itself in either case, \<^verbatim>\<open>.\<close> matches any
  character but a line feed, and the search is unanchored. Patterns with any other
  metacharacter are outside this fragment; \<open>rx_parse\<close> gives \<open>None\<close> for them.
\<close>

definition rx_meta :: "char \<Rightarrow> bool" where
  "rx_meta c = (c \<in> set ''^$.|?*+()[]{}'' \<or> c = CHR 0x5C)"

datatype atom = Lit char | AnyChar

fun rx_atom :: "char \<Rightarrow> atom option" where
  "rx_atom c =
     (if c = CHR ''.'' then Some AnyChar else if rx_meta c then None else Some (Lit c))"

fun rx_parse :: "string \<Rightarrow> atom list option" where
  "rx_parse [] = Some []"
| "rx_parse (c # cs) =
     (case rx_atom c of
        None \<Rightarrow> None
      | Some a \<Rightarrow> map_option ((#) a) (rx_parse cs))"

fun atom_ok :: "atom \<Rightarrow> char \<Rightarrow> bool" where
  "atom_ok (Lit x) c = (lower_char x = lower_char c)"
| "atom_ok AnyChar c = (c \<noteq> CHR 0x0A)"

fun rx_prefix :: "atom list \<Rightarrow> string \<Rightarrow> bool" where
  "rx_prefix [] s = True"
| "rx_prefix (a # as) [] = False"
| "rx_prefix (a # as) (c # cs) = (atom_ok a c \<and> rx_prefix as cs)"

fun rx_search :: "atom list \<Rightarrow> string \<Rightarrow> bool" where
  "rx_search as [] = rx_prefix as []"
| "rx_search as (c # cs) = (rx_prefix as (c # cs) \<or> rx_search as cs)"

definition rx_fragment :: "string \<Rightarrow> (string \<Rightarrow> bool) option" where
  "rx_fragment p = map_option rx_search (rx_parse p)"

text \<open>
  The other entries are stand-ins with the libraries' types, for evaluating the
  handlers at concrete requests: a digest that is the salt followed by the reversed
  password, the comparison that recomputes it, a date constructor that reads a number
  as milliseconds, constant string conversions, the ASCII lower-casing for
  \<^verbatim>\<open>toLowerCase\<close> (the requests below are ASCII), a \<^verbatim>\<open>$set\<close> that refuses every
  patch that is not made of plain names. Every theorem about a handler is stated for
  an arbitrary \<open>lib\<close>.
\<close>

definition sample_lib :: lib where
  "sample_lib =
     \<lparr>bcrypt_hash = (\<lambda>s rounds slt. slt @ rev s),
      bcrypt_compare = (\<lambda>s h. Inr (length s \<le> length h \<and> drop (length h - length s) h = rev s)),
      new_Date = (\<lambda>v. case v of VNum n \<Rightarrow> Millis n | _ \<Rightarrow> InvalidDate),
      num_toString = (\<lambda>n. ''0''),
      date_toString = (\<lambda>d. ''Invalid Date''),
      toLowerCase = ascii_lower,
      regex_i = rx_fragment,
      set_paths = (\<lambda>p d. Inl (PathNotViable (concat (map fst p))))\<rparr>"

definition sample_env :: env where
  "sample_env =
     \<lparr>now = Millis 1700000000000, salt = ''NaCl'',
      fresh_id = ObjectId ''65f0a1b2c3d4e5f601234567''\<rparr>"

definition sample_product :: doc where
  "sample_product =
     [(''_id'', VId (ObjectId ''65f0a1b2c3d4e5f601234501'')), (''title'', VStr ''Mouse''),
      (''category'', VStr ''Accessory''), (''released_date'', VDate (Millis 1600000000000))]"

definition sample_mixed_user :: doc where
  "sample_mixed_user =
     [(''_id'', VId (ObjectId ''65f0a1b2c3d4e5f601234502'')), (''name'', VStr ''Bobby''),
      (''email'', VStr ''Bob@Example.com''), (''username'', VStr ''bobby''),
      (''password'', VStr ''NaClterces''), (''createdAt'', VDate (Millis 7))]"

definition sample_user :: doc where
  "sample_user =
     [(''_id'', VId (ObjectId ''65f0a1b2c3d4e5f601234500'')), (''name'', VStr ''Bob''),
      (''email'', VStr ''bob@example.com''), (''username'', VStr ''bob''),
      (''password'', VStr ''NaCldrowssap''), (''createdAt'', VDate (Millis 5))]"

text \<open>
  The spec's words for the search of \<^verbatim>\<open>GET /products\<close>: the title contains the
  search parameter as a substring, case-insensitively.
\<close>

definition contains_ci :: "string \<Rightarrow> string \<Rightarrow> bool" where
  "contains_ci needle s = sublist (ascii_lower needle) (ascii_lower s)"

section \<open>Facts about the store and the strings\<close>

lemma findOne_None_iff:
  "findOne coll k v = None \<longleftrightarrow> (\<forall>d\<in>set coll. map_of d k \<noteq> Some v)"
  by (auto simp add: findOne_def find_None_iff)


lemma keys_obj: "fst ` set (obj kvs) \<subseteq> fst ` set kvs"
  by (induction kvs rule: obj.induct) auto

lemma map_of_obj_absent: "k \<notin> fst ` set kvs \<Longrightarrow> map_of (obj kvs) k = None"
  using keys_obj [of kvs] by (auto simp add: map_of_eq_None_iff)

lemma map_of_obj:
  "distinct (map fst kvs) \<Longrightarrow> map_of (obj kvs) k = Option.bind (map_of kvs k) id"
proof (induction kvs rule: obj.induct)
  case 1
  then show ?case by simp
next
  case (2 k' kvs)
  then show ?case by (auto simp add: map_of_obj_absent map_of_eq_None_iff)
next
  case (3 k' v kvs)
  then show ?case by simp
qed

lemma findOne_append:
  "findOne (xs @ ys) k v = (case findOne xs k v of None \<Rightarrow> findOne ys k v | Some d \<Rightarrow> Some d)"
  by (induction xs) (simp_all add: findOne_def)

lemma insertOne_finds:
  assumes "insertOne E coll d = Inr (coll', i)" and "map_of d k = Some v" and "k \<noteq> ''_id''"
    and "findOne coll k v = None"
  shows "\<exists>d'. findOne coll' k v = Some d'"
proof -
  from assms(1) obtain j where c: "coll' = coll @ [(''_id'', j) # AList.delete ''_id'' d]"
    by (auto simp add: insertOne_def Let_def split: if_splits)
  have "map_of ((''_id'', j) # AList.delete ''_id'' d) k = Some v"
    using assms(2,3) by (simp add: delete_conv')
  then show ?thesis
    using assms(4) by (simp add: c findOne_append) (simp add: findOne_def)
qed

lemma findOne_filter:
  "findOne (filter (\<lambda>d. map_of d k = Some v) coll) k v = findOne coll k v"
  by (induction coll) (simp_all add: findOne_def)

section \<open>Signup\<close>

text \<open>
  Claim C1. A signup request whose name, email and username are present and non-empty
  (truthy) and whose password is a non-empty string, with an email that no stored
  user has, appends exactly one document to the user collection: the identifier
  generated for it, the given name, email and username, the digest
  \<^verbatim>\<open>bcrypt.hash(password, 10)\<close> in the password field (not the password), and the
  clock's time as \<^verbatim>\<open>createdAt\<close>. The response is the 200 success body with that
  identifier. The generated identifier is one that the collection does not hold yet.
\<close>

theorem signup_inserts_user:
  assumes "map_of req ''name'' = Some n" and "truthy (Some n)"
    and "map_of req ''email'' = Some e" and "truthy (Some e)"
    and "map_of req ''username'' = Some u" and "truthy (Some u)"
    and "map_of req ''password'' = Some (VStr p)" and "p \<noteq> []"
    and "\<forall>d\<in>set users. map_of d ''email'' \<noteq> Some e"
    and "\<not> has_id users (VId (fresh_id E))"
  shows "signup L E req users =
           (users @ [[(''_id'', VId (fresh_id E)), (''name'', n), (''email'', e),
                      (''username'', u),
                      (''password'', VStr (bcrypt_hash L p 10 (salt E))),
                      (''createdAt'', VDate (now E))]],
            \<lparr>status = 200, body = SignupOk (VId (fresh_id E))\<rparr>)"
proof -
  have "findOne users ''email'' e = None"
    using assms(9) by (simp add: findOne_None_iff)
  then show ?thesis
    using assms by (simp add: signup_def hash_password_def insertOne_def send_def Let_def)
qed

theorem signup_inserts_user_witness:
  "signup sample_lib sample_env
     [(''name'', VStr ''Ann''), (''email'', VStr ''Ann@Example.com''),
      (''username'', VStr ''ann''), (''password'', VStr ''secret'')]
     [sample_user] =
   ([sample_user,
     [(''_id'', VId (ObjectId ''65f0a1b2c3d4e5f601234567'')), (''name'', VStr ''Ann''),
      (''email'', VStr ''Ann@Example.com''), (''username'', VStr ''ann''),
      (''password'', VStr ''NaClterces''), (''createdAt'', VDate (Millis 1700000000000))]],
    \<lparr>status = 200, body = SignupOk (VId (ObjectId ''65f0a1b2c3d4e5f601234567''))\<rparr>)"
  using signup_inserts_user [of
      "[(''name'', VStr ''Ann''), (''email'', VStr ''Ann@Example.com''),
        (''username'', VStr ''ann''), (''password'', VStr ''secret'')]"
      "VStr ''Ann''" "VStr ''Ann@Example.com''" "VStr ''ann''" "''secret''"
      "[sample_user]" sample_env sample_lib]
  by (simp add: has_id_def sample_env_def sample_lib_def sample_user_def)

text \<open>
  A request that carries only the email of a stored user does not reach the lookup:
  the field check of line 40 answers 400, not 409.
\<close>

theorem signup_conflict_counterexample:
  "findOne [sample_user] ''email'' (VStr ''bob@example.com'') = Some sample_user \<and>
   map_of [(''email'', VStr ''bob@example.com'')] ''email'' = Some (VStr ''bob@example.com'') \<and>
   signup sample_lib sample_env [(''email'', VStr ''bob@example.com'')] [sample_user] =
     ([sample_user], \<lparr>status = 400, body = ErrorBody (Msg ''All fields are required'')\<rparr>)"
  by (simp add: findOne_def sample_user_def signup_def fail_def)

text \<open>
  Claim C2, amended. A signup request whose name, username and password are present
  and non-empty and whose email is exactly the email of a stored user is answered
  with 409 and the message \<^verbatim>\<open>Email already registered\<close>, and the user collection is
  left as it was.
\<close>

theorem signup_conflict:
  assumes "truthy (map_of req ''name'')" and "truthy (map_of req ''username'')"
    and "truthy (map_of req ''password'')"
    and "map_of req ''email'' = Some e" and "truthy (Some e)"
    and "\<exists>d\<in>set users. map_of d ''email'' = Some e"
  shows "signup L E req users =
           (users, \<lparr>status = 409, body = ErrorBody (Msg ''Email already registered'')\<rparr>)"
proof -
  have "findOne users ''email'' e \<noteq> None"
    using assms(6) by (simp add: findOne_None_iff)
  then show ?thesis
    using assms by (auto simp add: signup_def fail_def)
qed

theorem signup_conflict_witness:
  "signup sample_lib sample_env
     [(''name'', VStr ''Rob''), (''email'', VStr ''bob@example.com''),
      (''username'', VStr ''rob''), (''password'', VStr ''hunter2'')] [sample_user] =
   ([sample_user], \<lparr>status = 409, body = ErrorBody (Msg ''Email already registered'')\<rparr>)"
  using signup_conflict [of
      "[(''name'', VStr ''Rob''), (''email'', VStr ''bob@example.com''),
        (''username'', VStr ''rob''), (''password'', VStr ''hunter2'')]"
      "VStr ''bob@example.com''" "[sample_user]" sample_lib sample_env]
  by (simp add: sample_user_def)

section \<open>Login\<close>

text \<open>
  A login request with an unknown email and no password is answered with 400 by the
  field check of line 81, while a request with a stored email and a wrong password is
  answered with 401: the two responses differ.
\<close>

theorem login_failures_counterexample:
  "findOne [sample_user] ''email'' (VStr (toLowerCase sample_lib ''nobody@example.com'')) = None \<and>
   login sample_lib [(''email'', VStr ''nobody@example.com'')] [sample_user] =
     \<lparr>status = 400, body = ErrorBody (Msg ''Email and password required'')\<rparr> \<and>
   findOne [sample_user] ''email'' (VStr (toLowerCase sample_lib ''bob@example.com'')) = Some sample_user \<and>
   compare_password sample_lib (Some (VStr ''wrong'')) (map_of sample_user ''password'') = Inr False \<and>
   login sample_lib [(''email'', VStr ''bob@example.com''), (''password'', VStr ''wrong'')]
     [sample_user] =
     \<lparr>status = 401, body = ErrorBody (Msg ''Invalid credentials'')\<rparr>"
  by (simp add: findOne_def sample_user_def login_def fail_def ascii_lower_def lower_char_def
      compare_password_def sample_lib_def)

text \<open>
  Claim C3, amended. Of two login requests that both carry a non-empty email and a
  non-empty password, one whose lower-cased email no stored user has and one whose
  lower-cased email finds a stored user but whose password the hash comparison
  rejects, both get the same response: status 401 with the body
  \<^verbatim>\<open>{ error: "Invalid credentials" }\<close>.
\<close>

theorem login_failures_indistinguishable:
  assumes "map_of req1 ''email'' = Some (VStr e1)" and "e1 \<noteq> []"
    and "truthy (map_of req1 ''password'')"
    and "\<forall>d\<in>set users. map_of d ''email'' \<noteq> Some (VStr (toLowerCase L e1))"
    and "map_of req2 ''email'' = Some (VStr e2)" and "e2 \<noteq> []"
    and "truthy (map_of req2 ''password'')"
    and "findOne users ''email'' (VStr (toLowerCase L e2)) = Some user"
    and "compare_password L (map_of req2 ''password'') (map_of user ''password'') = Inr False"
  shows "login L req1 users = \<lparr>status = 401, body = ErrorBody (Msg ''Invalid credentials'')\<rparr> \<and>
         login L req2 users = login L req1 users"
proof -
  have "findOne users ''email'' (VStr (toLowerCase L e1)) = None"
    using assms(4) by (simp add: findOne_None_iff)
  then have r1: "login L req1 users = fail 401 ''Invalid credentials''"
    using assms(1-3) by (simp add: login_def)
  have r2: "login L req2 users = fail 401 ''Invalid credentials''"
    using assms(5-9) by (simp add: login_def)
  show ?thesis
    using r1 r2 by (simp add: fail_def)
qed

theorem login_failures_indistinguishable_witness:
  "login sample_lib [(''email'', VStr ''nobody@example.com''), (''password'', VStr ''password'')]
     [sample_user] =
     \<lparr>status = 401, body = ErrorBody (Msg ''Invalid credentials'')\<rparr> \<and>
   login sample_lib [(''email'', VStr ''Bob@Example.com''), (''password'', VStr ''wrong'')]
     [sample_user] =
   login sample_lib [(''email'', VStr ''nobody@example.com''), (''password'', VStr ''password'')]
     [sample_user]"
  using login_failures_indistinguishable [of
      "[(''email'', VStr ''nobody@example.com''), (''password'', VStr ''password'')]"
      "''nobody@example.com''" "[sample_user]" sample_lib
      "[(''email'', VStr ''Bob@Example.com''), (''password'', VStr ''wrong'')]"
      "''Bob@Example.com''" sample_user]
  by (simp add: findOne_def sample_user_def ascii_lower_def lower_char_def
      compare_password_def sample_lib_def)



text \<open>
  Claim C9. The two routes treat the email differently. A login request with a
  non-empty email and password is answered from the first stored user whose email is
  \<^verbatim>\<open>toLowerCase\<close> of the email in the request: 401 when there is none, and
  otherwise the outcome of comparing the password with that user's digest. So the
  response depends on the stored users only through those with the lower-cased
  email. A signup that succeeds appends a document whose email field is the request's
  email as it was supplied.
\<close>

theorem email_normalisation_asymmetric:
  "(map_of req ''email'' = Some (VStr e) \<and> e \<noteq> [] \<and> truthy (map_of req ''password'') \<longrightarrow>
      login L req users =
        (case findOne users ''email'' (VStr (toLowerCase L e)) of
           None \<Rightarrow> \<lparr>status = 401, body = ErrorBody (Msg ''Invalid credentials'')\<rparr>
         | Some user \<Rightarrow>
             (case compare_password L (map_of req ''password'') (map_of user ''password'') of
                Inl err \<Rightarrow> \<lparr>status = 500, body = ErrorBody (ExnMessage err)\<rparr>
              | Inr isMatch \<Rightarrow>
                  if isMatch
                  then (case js_toString L (map_of user ''_id'') of
                          Inl err \<Rightarrow> \<lparr>status = 500, body = ErrorBody (ExnMessage err)\<rparr>
                        | Inr i \<Rightarrow>
                            \<lparr>status = 200,
                             body = UserOk (obj [(''id'', Some (VStr i)),
                                                 (''name'', map_of user ''name''),
                                                 (''email'', map_of user ''email''),
                                                 (''username'', map_of user ''username'')])\<rparr>)
                  else \<lparr>status = 401, body = ErrorBody (Msg ''Invalid credentials'')\<rparr>))) \<and>
   (map_of req ''email'' = Some (VStr e) \<longrightarrow>
      login L req users =
        login L req (filter (\<lambda>d. map_of d ''email'' = Some (VStr (toLowerCase L e))) users)) \<and>
   (map_of sreq ''email'' = Some v \<and> status (snd (signup L E sreq users)) = 200 \<longrightarrow>
      (\<exists>d. fst (signup L E sreq users) = users @ [d] \<and> map_of d ''email'' = Some v))"
proof -
  have c: "login L req users =
        (case findOne users ''email'' (VStr (toLowerCase L e)) of
           None \<Rightarrow> \<lparr>status = 401, body = ErrorBody (Msg ''Invalid credentials'')\<rparr>
         | Some user \<Rightarrow>
             (case compare_password L (map_of req ''password'') (map_of user ''password'') of
                Inl err \<Rightarrow> \<lparr>status = 500, body = ErrorBody (ExnMessage err)\<rparr>
              | Inr isMatch \<Rightarrow>
                  if isMatch
                  then (case js_toString L (map_of user ''_id'') of
                          Inl err \<Rightarrow> \<lparr>status = 500, body = ErrorBody (ExnMessage err)\<rparr>
                        | Inr i \<Rightarrow>
                            \<lparr>status = 200,
                             body = UserOk (obj [(''id'', Some (VStr i)),
                                                 (''name'', map_of user ''name''),
                                                 (''email'', map_of user ''email''),
                                                 (''username'', map_of user ''username'')])\<rparr>)
                  else \<lparr>status = 401, body = ErrorBody (Msg ''Invalid credentials'')\<rparr>))"
    if "map_of req ''email'' = Some (VStr e)" and "e \<noteq> []" and "truthy (map_of req ''password'')"
    using that
    by (simp add: login_def Let_def fail_def caught_def send_def
        split: option.splits sum.splits)
  have l: "login L req users =
           login L req (filter (\<lambda>d. map_of d ''email'' = Some (VStr (toLowerCase L e))) users)"
    if "map_of req ''email'' = Some (VStr e)"
    using that by (simp add: login_def findOne_filter Let_def)
  have s: "\<exists>d. fst (signup L E sreq users) = users @ [d] \<and> map_of d ''email'' = Some v"
    if "map_of sreq ''email'' = Some v" and "status (snd (signup L E sreq users)) = 200"
    using that
    by (auto simp add: signup_def insertOne_def fail_def caught_def send_def Let_def
        map_of_obj delete_conv' split: if_splits option.splits sum.splits)
  show ?thesis using c l s by blast
qed

theorem email_normalisation_asymmetric_witness:
  "findOne [sample_mixed_user, sample_user] ''email'' (VStr ''Bob@Example.com'') =
     Some sample_mixed_user \<and>
   login sample_lib [(''email'', VStr ''Bob@Example.com''), (''password'', VStr ''password'')]
     [sample_mixed_user, sample_user] =
     \<lparr>status = 200,
      body = UserOk [(''id'', VStr ''65f0a1b2c3d4e5f601234500''), (''name'', VStr ''Bob''),
                     (''email'', VStr ''bob@example.com''), (''username'', VStr ''bob'')]\<rparr> \<and>
   login sample_lib [(''email'', VStr ''Bob@Example.com''), (''password'', VStr ''password'')]
     [sample_mixed_user, sample_user] =
   login sample_lib [(''email'', VStr ''Bob@Example.com''), (''password'', VStr ''password'')]
     [sample_user] \<and>
   (\<exists>d. fst (signup sample_lib sample_env
              [(''name'', VStr ''Ann''), (''email'', VStr ''Ann@Example.com''),
               (''username'', VStr ''ann''), (''password'', VStr ''secret'')] [sample_user]) =
           [sample_user] @ [d] \<and>
        map_of d ''email'' = Some (VStr ''Ann@Example.com''))"
proof -
  have s: "status (snd (signup sample_lib sample_env
              [(''name'', VStr ''Ann''), (''email'', VStr ''Ann@Example.com''),
               (''username'', VStr ''ann''), (''password'', VStr ''secret'')] [sample_user])) = 200"
    by (simp add: signup_def findOne_def sample_user_def hash_password_def insertOne_def
        has_id_def sample_env_def send_def Let_def)
  have t: "toLowerCase sample_lib ''Bob@Example.com'' = ''bob@example.com''"
    by (simp add: sample_lib_def ascii_lower_def lower_char_def)
  have f: "findOne [sample_mixed_user, sample_user] ''email'' (VStr ''bob@example.com'') =
             Some sample_user"
    "findOne [sample_mixed_user, sample_user] ''email'' (VStr ''Bob@Example.com'') =
             Some sample_mixed_user"
    "filter (\<lambda>d. map_of d ''email'' = Some (VStr ''bob@example.com''))
       [sample_mixed_user, sample_user] = [sample_user]"
    by (simp_all add: findOne_def sample_user_def sample_mixed_user_def)
  have c: "compare_password sample_lib (Some (VStr ''password'')) (map_of sample_user ''password'') =
             Inr True"
    by (simp add: compare_password_def sample_lib_def sample_user_def)
  have v: "js_toString sample_lib (map_of sample_user ''_id'') = Inr ''65f0a1b2c3d4e5f601234500''"
    "map_of sample_user ''name'' = Some (VStr ''Bob'')"
    "map_of sample_user ''email'' = Some (VStr ''bob@example.com'')"
    "map_of sample_user ''username'' = Some (VStr ''bob'')"
    by (simp_all add: sample_user_def)
  have m: "map_of sample_mixed_user ''email'' = Some (VStr ''Bob@Example.com'')"
    by (simp add: sample_mixed_user_def)
  show ?thesis
    using s
      email_normalisation_asymmetric [of
        "[(''email'', VStr ''Bob@Example.com''), (''password'', VStr ''password'')]"
        "''Bob@Example.com''" sample_lib "[sample_mixed_user, sample_user]"
        "[]" VNull sample_env]
      email_normalisation_asymmetric [of
        "[]" "[]" sample_lib "[sample_user]"
        "[(''name'', VStr ''Ann''), (''email'', VStr ''Ann@Example.com''),
          (''username'', VStr ''ann''), (''password'', VStr ''secret'')]"
        "VStr ''Ann@Example.com''" sample_env]
    by (auto simp add: t f c v m)
qed

text \<open>
  What the difference means for a user: after a signup with \<^verbatim>\<open>Ann@Example.com\<close> a
  login with the same email and password is refused, and after a signup with the
  lower-case email a login with \<^verbatim>\<open>Ann@Example.com\<close> succeeds.
\<close>

lemma mixed_case_signup_then_login:
  "login sample_lib [(''email'', VStr ''Ann@Example.com''), (''password'', VStr ''secret'')]
     (fst (signup sample_lib sample_env
        [(''name'', VStr ''Ann''), (''email'', VStr ''Ann@Example.com''),
         (''username'', VStr ''ann''), (''password'', VStr ''secret'')] [])) =
   \<lparr>status = 401, body = ErrorBody (Msg ''Invalid credentials'')\<rparr>"
  by (simp add: signup_def login_def findOne_def hash_password_def insertOne_def has_id_def
      sample_env_def sample_lib_def send_def fail_def Let_def ascii_lower_def lower_char_def)

lemma lower_case_signup_then_login:
  "login sample_lib [(''email'', VStr ''Ann@Example.com''), (''password'', VStr ''secret'')]
     (fst (signup sample_lib sample_env
        [(''name'', VStr ''Ann''), (''email'', VStr ''ann@example.com''),
         (''username'', VStr ''ann''), (''password'', VStr ''secret'')] [])) =
   \<lparr>status = 200,
    body = UserOk [(''id'', VStr ''65f0a1b2c3d4e5f601234567''), (''name'', VStr ''Ann''),
                   (''email'', VStr ''ann@example.com''), (''username'', VStr ''ann'')]\<rparr>"
  by (simp add: signup_def login_def findOne_def hash_password_def insertOne_def has_id_def
      sample_env_def sample_lib_def send_def fail_def Let_def ascii_lower_def lower_char_def
      compare_password_def)

text \<open>
  A user created by \<^verbatim>\<open>/google-signup\<close> has no password field; a login with that
  email makes \<^verbatim>\<open>bcrypt.compare\<close> throw, and the answer is 500.
\<close>

lemma login_google_user:
  "login sample_lib [(''email'', VStr ''cy@example.com''), (''password'', VStr ''x'')]
     [[(''_id'', VId (ObjectId ''65f0a1b2c3d4e5f601234567'')), (''name'', VStr ''Cy''),
       (''email'', VStr ''cy@example.com''), (''googleId'', VStr ''g-7''),
       (''createdAt'', VDate (Millis 1700000000000))]] =
   \<lparr>status = 500, body = ErrorBody (ExnMessage (IllegalArguments ''string'' ''undefined''))\<rparr>"
  by (simp add: login_def findOne_def compare_password_def caught_def sample_lib_def
      ascii_lower_def lower_char_def)

section \<open>Google signup\<close>

text \<open>
  A request that carries only the email of a stored user is answered with 400 by the
  field check of line 121; the stored user is not returned.
\<close>

theorem googleSignup_existing_counterexample:
  "findOne [sample_user] ''email'' (VStr ''bob@example.com'') = Some sample_user \<and>
   googleSignup sample_lib sample_env [(''email'', VStr ''bob@example.com'')] [sample_user] =
     ([sample_user], \<lparr>status = 400, body = ErrorBody (Msg ''Missing required fields'')\<rparr>)"
  by (simp add: findOne_def sample_user_def googleSignup_def fail_def)

text \<open>
  Claim C5, amended. For a google-signup request whose email, name and googleId are
  present and non-empty: when a stored user has the request's email, the handler
  leaves the collection as it is (nothing inserted, nothing merged into the stored
  user) and answers 200 with that stored user; and when a first call has answered 200,
  a second call with the same email (its name and googleId present, whatever they are)
  leaves the collection as the first call left it and answers 200 with a stored user,
  so no second document is created.
\<close>

theorem googleSignup_idempotent:
  assumes "map_of req ''email'' = Some e" and "truthy (Some e)"
    and "truthy (map_of req ''name'')" and "truthy (map_of req ''googleId'')"
    and "map_of req' ''email'' = Some e"
    and "truthy (map_of req' ''name'')" and "truthy (map_of req' ''googleId'')"
  shows "(findOne users ''email'' e = Some user \<longrightarrow>
            googleSignup L E req users = (users, \<lparr>status = 200, body = UserOk user\<rparr>)) \<and>
         (status (snd (googleSignup L E req users)) = 200 \<longrightarrow>
            (\<exists>user'. findOne (fst (googleSignup L E req users)) ''email'' e = Some user' \<and>
               googleSignup L E' req' (fst (googleSignup L E req users)) =
                 (fst (googleSignup L E req users), \<lparr>status = 200, body = UserOk user'\<rparr>)))"
proof -
  have found: "googleSignup L F req us = (us, \<lparr>status = 200, body = UserOk u\<rparr>)"
    if "findOne us ''email'' e = Some u" for F us u
    using that assms(1-4) by (simp add: googleSignup_def send_def)
  have found': "googleSignup L F req' us = (us, \<lparr>status = 200, body = UserOk u\<rparr>)"
    if "findOne us ''email'' e = Some u" for F us u
    using that assms(2,5-7) by (simp add: googleSignup_def send_def)
  have twice: "\<exists>user'. findOne (fst (googleSignup L E req users)) ''email'' e = Some user' \<and>
                 googleSignup L E' req' (fst (googleSignup L E req users)) =
                   (fst (googleSignup L E req users), \<lparr>status = 200, body = UserOk user'\<rparr>)"
    if ok: "status (snd (googleSignup L E req users)) = 200"
  proof (cases "findOne users ''email'' e")
    case (Some u)
    then show ?thesis by (simp add: found found')
  next
    case None
    let ?newUser = "obj [(''name'', map_of req ''name''), (''email'', map_of req ''email''),
                         (''googleId'', map_of req ''googleId''),
                         (''createdAt'', Some (VDate (now E)))]"
    from ok None assms(1-4) obtain users' i where
      ins: "insertOne E users ?newUser = Inr (users', i)"
      and fst1: "fst (googleSignup L E req users) = users'"
      by (auto simp add: googleSignup_def caught_def Let_def split: sum.splits)
    have "map_of ?newUser ''email'' = Some e"
      using assms(1) by (simp add: map_of_obj)
    then obtain d' where "findOne users' ''email'' e = Some d'"
      using insertOne_finds [OF ins _ _ None] by auto
    then show ?thesis
      by (simp add: fst1 found')
  qed
  show ?thesis
    using found twice by blast
qed

theorem googleSignup_idempotent_witness:
  "fst (googleSignup sample_lib sample_env
     [(''email'', VStr ''cy@example.com''), (''name'', VStr ''Cy''), (''googleId'', VStr ''g-7'')]
     [sample_user]) =
     [sample_user,
      [(''_id'', VId (ObjectId ''65f0a1b2c3d4e5f601234567'')), (''name'', VStr ''Cy''),
       (''email'', VStr ''cy@example.com''), (''googleId'', VStr ''g-7''),
       (''createdAt'', VDate (Millis 1700000000000))]] \<and>
   googleSignup sample_lib sample_env
     [(''email'', VStr ''cy@example.com''), (''name'', VStr ''Cyrus''), (''googleId'', VStr ''g-8'')]
     (fst (googleSignup sample_lib sample_env
       [(''email'', VStr ''cy@example.com''), (''name'', VStr ''Cy''), (''googleId'', VStr ''g-7'')]
       [sample_user])) =
     ([sample_user,
       [(''_id'', VId (ObjectId ''65f0a1b2c3d4e5f601234567'')), (''name'', VStr ''Cy''),
        (''email'', VStr ''cy@example.com''), (''googleId'', VStr ''g-7''),
        (''createdAt'', VDate (Millis 1700000000000))]],
      \<lparr>status = 200,
       body = UserOk
         [(''_id'', VId (ObjectId ''65f0a1b2c3d4e5f601234567'')), (''name'', VStr ''Cy''),
          (''email'', VStr ''cy@example.com''), (''googleId'', VStr ''g-7''),
          (''createdAt'', VDate (Millis 1700000000000))]\<rparr>) \<and>
   googleSignup sample_lib sample_env
     [(''email'', VStr ''bob@example.com''), (''name'', VStr ''Robert''), (''googleId'', VStr ''g-1'')]
     [sample_user] = ([sample_user], \<lparr>status = 200, body = UserOk sample_user\<rparr>)"
proof -
  have first: "googleSignup sample_lib sample_env
     [(''email'', VStr ''cy@example.com''), (''name'', VStr ''Cy''), (''googleId'', VStr ''g-7'')]
     [sample_user] =
     ([sample_user,
       [(''_id'', VId (ObjectId ''65f0a1b2c3d4e5f601234567'')), (''name'', VStr ''Cy''),
        (''email'', VStr ''cy@example.com''), (''googleId'', VStr ''g-7''),
        (''createdAt'', VDate (Millis 1700000000000))]],
      \<lparr>status = 200,
       body = UserOk
         [(''name'', VStr ''Cy''), (''email'', VStr ''cy@example.com''),
          (''googleId'', VStr ''g-7''), (''createdAt'', VDate (Millis 1700000000000)),
          (''_id'', VId (ObjectId ''65f0a1b2c3d4e5f601234567'')),
          (''id'', VStr ''65f0a1b2c3d4e5f601234567'')]\<rparr>)"
    by (simp add: googleSignup_def findOne_def insertOne_def has_id_def sample_env_def
        sample_user_def send_def Let_def)
  have f: "findOne [sample_user] ''email'' (VStr ''bob@example.com'') = Some sample_user"
    by (simp add: findOne_def sample_user_def)
  have g: "findOne
       [sample_user,
        [(''_id'', VId (ObjectId ''65f0a1b2c3d4e5f601234567'')), (''name'', VStr ''Cy''),
         (''email'', VStr ''cy@example.com''), (''googleId'', VStr ''g-7''),
         (''createdAt'', VDate (Millis 1700000000000))]] ''email'' (VStr ''cy@example.com'') =
       Some [(''_id'', VId (ObjectId ''65f0a1b2c3d4e5f601234567'')), (''name'', VStr ''Cy''),
         (''email'', VStr ''cy@example.com''), (''googleId'', VStr ''g-7''),
         (''createdAt'', VDate (Millis 1700000000000))]"
    by (simp add: findOne_def sample_user_def)
  show ?thesis
    using googleSignup_idempotent [of
      "[(''email'', VStr ''cy@example.com''), (''name'', VStr ''Cy''), (''googleId'', VStr ''g-7'')]"
      "VStr ''cy@example.com''"
      "[(''email'', VStr ''cy@example.com''), (''name'', VStr ''Cyrus''), (''googleId'', VStr ''g-8'')]"
      "[sample_user]" sample_user sample_lib sample_env sample_env]
      googleSignup_idempotent [of
      "[(''email'', VStr ''bob@example.com''), (''name'', VStr ''Robert''), (''googleId'', VStr ''g-1'')]"
      "VStr ''bob@example.com''"
      "[(''email'', VStr ''bob@example.com''), (''name'', VStr ''Robert''), (''googleId'', VStr ''g-1'')]"
      "[sample_user]" sample_user sample_lib sample_env sample_env]
    by (simp add: first f g)
qed

text \<open>
  The creating path, from an empty collection: the second call finds the document
  that the first call inserted, and the collection holds one document.
\<close>

lemma googleSignup_twice_from_empty:
  "fst (googleSignup sample_lib (sample_env\<lparr>fresh_id := ObjectId ''65f0a1b2c3d4e5f601234568''\<rparr>)
          [(''email'', VStr ''cy@example.com''), (''name'', VStr ''Cy''), (''googleId'', VStr ''g-7'')]
          (fst (googleSignup sample_lib sample_env
             [(''email'', VStr ''cy@example.com''), (''name'', VStr ''Cy''), (''googleId'', VStr ''g-7'')]
             []))) =
   [[(''_id'', VId (ObjectId ''65f0a1b2c3d4e5f601234567'')), (''name'', VStr ''Cy''),
     (''email'', VStr ''cy@example.com''), (''googleId'', VStr ''g-7''),
     (''createdAt'', VDate (Millis 1700000000000))]]"
  by (simp add: googleSignup_def findOne_def insertOne_def has_id_def sample_env_def
      send_def Let_def)

text \<open>
  Claim C10. When the email of a google-signup request is the email of a stored user,
  a 200 response carries that stored document as it is; a \<^verbatim>\<open>password\<close> field of the
  stored document (the digest that \<^verbatim>\<open>/signup\<close> stored) is part of the response.
\<close>

theorem googleSignup_returns_stored_document:
  assumes "map_of req ''email'' = Some e"
    and "findOne users ''email'' e = Some user"
    and "status (snd (googleSignup L E req users)) = 200"
  shows "body (snd (googleSignup L E req users)) = UserOk user \<and>
         (\<forall>h. map_of user ''password'' = Some h \<longrightarrow>
            (\<exists>u. body (snd (googleSignup L E req users)) = UserOk u \<and>
                 map_of u ''password'' = Some h))"
  using assms by (auto simp add: googleSignup_def send_def fail_def Let_def split: if_splits)

theorem googleSignup_returns_stored_document_witness:
  "body (snd (googleSignup sample_lib sample_env
     [(''email'', VStr ''bob@example.com''), (''name'', VStr ''Robert''), (''googleId'', VStr ''g-1'')]
     [sample_user])) = UserOk sample_user \<and>
   map_of sample_user ''password'' = Some (VStr ''NaCldrowssap'')"
proof -
  have f: "findOne [sample_user] ''email'' (VStr ''bob@example.com'') = Some sample_user"
    by (simp add: findOne_def sample_user_def)
  have s: "status (snd (googleSignup sample_lib sample_env
     [(''email'', VStr ''bob@example.com''), (''name'', VStr ''Robert''), (''googleId'', VStr ''g-1'')]
     [sample_user])) = 200"
    by (simp add: googleSignup_def f send_def)
  have p: "map_of sample_user ''password'' = Some (VStr ''NaCldrowssap'')"
    by (simp add: sample_user_def)
  show ?thesis
    using p googleSignup_returns_stored_document [OF _ f s] by simp
qed

section \<open>Product identifiers\<close>

text \<open>
  Claim C8. For an identifier string that is not a well-formed object identifier,
  \<^verbatim>\<open>PATCH /product/:id\<close> answers 400 \<^verbatim>\<open>Invalid product ID\<close> without touching the
  collection, while \<^verbatim>\<open>GET\<close> and \<^verbatim>\<open>DELETE /product/:id\<close> make no check: the
  constructor of the identifier throws and the \<^verbatim>\<open>catch\<close> answers 500.
\<close>

theorem malformed_id_classification:
  assumes "\<not> ObjectId_isValid ident"
  shows "updateProduct L ident patch products =
           (products, \<lparr>status = 400, body = ErrorBody (Msg ''Invalid product ID'')\<rparr>) \<and>
         getProduct ident products =
           \<lparr>status = 500, body = ErrorBody (ExnMessage BSONError)\<rparr> \<and>
         deleteProduct ident products =
           (products, \<lparr>status = 500, body = ErrorBody (ExnMessage BSONError)\<rparr>)"
  using assms
  by (simp add: updateProduct_def getProduct_def deleteProduct_def ObjectId_new_def
      fail_def caught_def)

theorem malformed_id_classification_witness:
  "\<not> ObjectId_isValid ''not-an-id'' \<and>
   updateProduct sample_lib ''not-an-id'' [(''title'', VStr ''Mouse'')] [] =
     ([], \<lparr>status = 400, body = ErrorBody (Msg ''Invalid product ID'')\<rparr>) \<and>
   getProduct ''not-an-id'' [] = \<lparr>status = 500, body = ErrorBody (ExnMessage BSONError)\<rparr> \<and>
   deleteProduct ''not-an-id'' [] =
     ([], \<lparr>status = 500, body = ErrorBody (ExnMessage BSONError)\<rparr>)"
proof -
  have n: "\<not> ObjectId_isValid ''not-an-id''"
    by (simp add: ObjectId_isValid_def)
  show ?thesis
    using n malformed_id_classification [OF n, of sample_lib "[(''title'', VStr ''Mouse'')]" "[]"]
    by simp
qed

section \<open>Listing products\<close>

text \<open>
  On the patterns without metacharacters the engine \<open>rx_fragment\<close> is the
  case-insensitive substring search.
\<close>

lemma rx_prefix_literal:
  "rx_prefix (map Lit p) s = prefix (ascii_lower p) (ascii_lower s)"
  by (induction "map Lit p" s arbitrary: p rule: rx_prefix.induct)
     (auto simp add: ascii_lower_def)

lemma rx_search_literal:
  "rx_search (map Lit p) s = contains_ci p s"
proof (induction s)
  case Nil
  then show ?case
    by (cases p) (simp_all add: contains_ci_def ascii_lower_def)
next
  case (Cons c cs)
  have "rx_prefix (map Lit p) (c # cs) = prefix (ascii_lower p) (ascii_lower (c # cs))"
    by (rule rx_prefix_literal)
  then show ?case
    using Cons by (simp add: contains_ci_def ascii_lower_def sublist_Cons_right)
qed

lemma rx_parse_literal:
  "list_all (\<lambda>c. \<not> rx_meta c) p \<Longrightarrow> rx_parse p = Some (map Lit p)"
  by (induction p) (auto simp add: rx_meta_def)

lemma rx_fragment_literal:
  assumes "list_all (\<lambda>c. \<not> rx_meta c) p"
  shows "rx_fragment p = Some (contains_ci p)"
  using rx_parse_literal [OF assms]
  by (simp add: rx_fragment_def rx_search_literal fun_eq_iff)

text \<open>
  The search parameter is handed to the store as a regular expression. With the
  search \<^verbatim>\<open>.\<close> a product titled \<^verbatim>\<open>Mouse\<close> is returned, although the title does
  not contain a full stop.
\<close>

theorem listProducts_substring_counterexample:
  "listProducts sample_lib None (Some ''.'') [sample_product] =
     \<lparr>status = 200, body = Products [sample_product]\<rparr> \<and>
   map_of sample_product ''title'' = Some (VStr ''Mouse'') \<and>
   \<not> contains_ci ''.'' ''Mouse''"
  by (simp add: listProducts_def find_docs_def build_query_def sample_lib_def rx_fragment_def
      rx_meta_def sample_product_def send_def contains_ci_def ascii_lower_def
      lower_char_def sublist_code prefix_code)

text \<open>
  Claim C6, amended. A parameter counts as given when it is present and non-empty.
  \<^verbatim>\<open>GET /products\<close> returns exactly the documents that satisfy every condition
  given: the category field equals the category parameter, and the title is a string
  in which the store's case-insensitive regular expression search finds the search
  parameter, read as a pattern. With neither parameter the whole collection is
  returned; a pattern that the store rejects is answered with 500.
\<close>

theorem listProducts_selects:
  "(\<not> given category \<and> \<not> given search \<longrightarrow>
      listProducts L category search products = \<lparr>status = 200, body = Products products\<rparr>) \<and>
   (\<not> given search \<longrightarrow>
      listProducts L category search products =
        \<lparr>status = 200,
         body = Products (filter
           (\<lambda>d. given category \<longrightarrow> map_of d ''category'' = map_option VStr category)
           products)\<rparr>) \<and>
   (given search \<and> search = Some s \<and> regex_i L s = Some m \<longrightarrow>
      listProducts L category search products =
        \<lparr>status = 200,
         body = Products (filter
           (\<lambda>d. (given category \<longrightarrow> map_of d ''category'' = map_option VStr category) \<and>
                (\<exists>t. map_of d ''title'' = Some (VStr t) \<and> m t))
           products)\<rparr>) \<and>
   (given search \<and> search = Some s \<and> regex_i L s = None \<longrightarrow>
      listProducts L category search products =
        \<lparr>status = 500, body = ErrorBody (ExnMessage (InvalidRegex s))\<rparr>)"
proof -
  have t: "(case x of Some (VStr t) \<Rightarrow> m t | _ \<Rightarrow> False) =
           (\<exists>t. x = Some (VStr t) \<and> m t)" for x
    by (auto split: option.splits val.splits)
  show ?thesis
    by (cases category; cases search)
       (auto simp add: listProducts_def find_docs_def build_query_def send_def caught_def t
          intro!: filter_cong)
qed

theorem listProducts_selects_witness:
  "listProducts sample_lib (Some ''Accessory'') (Some ''m.U'')
     [sample_product, [(''title'', VStr ''Mug''), (''category'', VStr ''Accessory'')]] =
   \<lparr>status = 200, body = Products [sample_product]\<rparr>"
proof -
  have r: "regex_i sample_lib ''m.U'' = Some (rx_search [Lit CHR ''m'', AnyChar, Lit CHR ''U''])"
    by (simp add: sample_lib_def rx_fragment_def rx_meta_def)
  have g: "given (Some ''m.U'')" by simp
  show ?thesis
    using listProducts_selects [of "Some ''Accessory''" "Some ''m.U''" sample_lib
        "[sample_product, [(''title'', VStr ''Mug''), (''category'', VStr ''Accessory'')]]"
        "''m.U''" "rx_search [Lit CHR ''m'', AnyChar, Lit CHR ''U'']"] r g
    by (simp add: sample_product_def lower_char_def)
qed

section \<open>Updating a product\<close>

lemma map_of_set_fields:
  "distinct (map fst p) \<Longrightarrow>
   map_of (set_fields p d) k = (case map_of p k of None \<Rightarrow> map_of d k | Some v \<Rightarrow> Some v)"
proof (induction p arbitrary: d)
  case Nil
  then show ?case by (simp add: set_fields_def)
next
  case (Cons kv p)
  obtain k' v' where kv: "kv = (k', v')" by (cases kv)
  have step: "set_fields ((k', v') # p) d = set_fields p (AList.update k' v' d)"
    by (simp add: set_fields_def)
  have absent: "map_of p k' = None"
    using Cons.prems by (simp add: kv map_of_eq_None_iff)
  have "distinct (map fst p)"
    using Cons.prems by simp
  then have "map_of (set_fields p (AList.update k' v' d)) k =
      (case map_of p k of None \<Rightarrow> map_of (AList.update k' v' d) k | Some v \<Rightarrow> Some v)"
    by (rule Cons.IH)
  then show ?case
    using absent by (simp add: kv step update_conv' split: option.splits)
qed

lemma updateOne_append:
  "\<forall>x\<in>set pre. map_of x ''_id'' \<noteq> Some i \<Longrightarrow>
   updateOne L (pre @ rest) i p =
     (case updateOne L rest i p of
        Inl err \<Rightarrow> Inl err
      | Inr (ds', matched, modified) \<Rightarrow> Inr (pre @ ds', matched, modified))"
  by (induction pre) (auto split: sum.splits)

lemma map_of_coerce_date:
  "map_of (coerce_date L p) k =
     (case map_of p k of
        None \<Rightarrow> None
      | Some v \<Rightarrow>
          if k = ''released_date'' \<and> truthy (Some v) then Some (VDate (new_Date L v))
          else Some v)"
  by (auto simp add: coerce_date_def update_conv' split: option.splits)

lemma keys_coerce_date: "map fst (coerce_date L p) = map fst p"
  by (auto simp add: coerce_date_def update_keys image_iff split: option.splits
      dest!: map_of_SomeD)

lemma map_of_bson:
  "map_of (map (\<lambda>(k, v). (k, bson v)) p) k = map_option bson (map_of p k)"
  by (induction p) auto

lemma keys_bson: "map fst (map (\<lambda>(k, v). (k, bson v)) p) = map fst p"
  by (induction p) auto

lemma updateProduct_immutable_id:
  "updateProduct sample_lib ''65f0a1b2c3d4e5f601234501'' [(''_id'', VStr ''x'')] [sample_product] =
     ([sample_product], \<lparr>status = 500, body = ErrorBody (ExnMessage ImmutableField)\<rparr>)"
  by (simp add: updateProduct_def ObjectId_isValid_def is_hex_def ObjectId_new_def
      ascii_lower_def lower_char_def coerce_date_def sample_product_def set_fields_def caught_def
      apply_set_def plain_name_def)

text \<open>
  A patch with a dotted key is not a merge of top-level fields: the model hands it to
  \<open>set_paths\<close>. The sample instance refuses it, as the store refuses a path that
  leads through a string field.
\<close>

lemma updateProduct_dotted_key:
  "updateProduct sample_lib ''65f0a1b2c3d4e5f601234501'' [(''title.en'', VStr ''x'')]
     [sample_product] =
     ([sample_product], \<lparr>status = 500, body = ErrorBody (ExnMessage (PathNotViable ''title.en''))\<rparr>)"
  by (simp add: updateProduct_def ObjectId_isValid_def is_hex_def ObjectId_new_def
      ascii_lower_def lower_char_def coerce_date_def sample_product_def caught_def
      apply_set_def plain_name_def sample_lib_def)

text \<open>
  An empty \<^verbatim>\<open>released_date\<close> is falsy, so line 209 does not coerce it: the stored
  field becomes the empty string, not a date.
\<close>

theorem updateProduct_empty_date_counterexample:
  "updateProduct sample_lib ''65f0a1b2c3d4e5f601234501'' [(''released_date'', VStr '''')]
     [sample_product] =
   ([[(''_id'', VId (ObjectId ''65f0a1b2c3d4e5f601234501'')), (''title'', VStr ''Mouse''),
      (''category'', VStr ''Accessory''), (''released_date'', VStr '''')]],
    \<lparr>status = 200, body = UpdateAck 1 1\<rparr>) \<and>
   VStr '''' \<noteq> VDate (new_Date sample_lib (VStr ''''))"
  by (simp add: updateProduct_def ObjectId_isValid_def is_hex_def ObjectId_new_def
      ascii_lower_def lower_char_def coerce_date_def sample_product_def set_fields_def send_def
      apply_set_def plain_name_def)

text \<open>
  Claim C7, amended. For a well-formed identifier that a document \<open>d\<close> of the
  collection carries (the first such document) and a patch whose keys are plain
  top-level field names other than \<^verbatim>\<open>_id\<close>, \<^verbatim>\<open>PATCH /product/:id\<close> answers 200 and
  replaces \<open>d\<close>, and nothing else, by a document in which every field that the patch
  does not name has the value it had in \<open>d\<close>, and every field that the patch names has
  the patch's value as the driver writes it, except that a truthy \<^verbatim>\<open>released_date\<close>
  is first replaced by the date that \<^verbatim>\<open>new Date\<close> makes of it. A falsy
  \<^verbatim>\<open>released_date\<close> is stored as it is given.
\<close>

theorem updateProduct_merges_patch:
  assumes "ObjectId_new ident = Inr i"
    and "products = pre @ d # post"
    and "\<forall>x\<in>set pre. map_of x ''_id'' \<noteq> Some (VId i)"
    and "map_of d ''_id'' = Some (VId i)"
    and "distinct (map fst patch)"
    and "list_all plain_name (map fst patch)"
    and "map_of patch ''_id'' = None"
  shows "\<exists>d' n.
           updateProduct L ident patch products =
             (pre @ d' # post, \<lparr>status = 200, body = UpdateAck 1 n\<rparr>) \<and>
           (\<forall>k. map_of d' k =
              (case map_of patch k of
                 None \<Rightarrow> map_of d k
               | Some v \<Rightarrow>
                   if k = ''released_date'' \<and> truthy (Some v)
                   then Some (bson (VDate (new_Date L v)))
                   else Some (bson v)))"
proof -
  let ?p = "coerce_date L patch"
  let ?q = "map (\<lambda>(k, v). (k, bson v)) ?p"
  let ?d' = "set_fields ?q d"
  have valid: "ObjectId_isValid ident"
    using assms(1) by (simp add: ObjectId_new_def split: if_splits)
  have plain: "apply_set L ?p d = Inr ?d'"
    using assms(6) by (simp add: apply_set_def keys_coerce_date)
  have "map fst ?q = map fst patch"
    by (simp only: keys_bson keys_coerce_date)
  then have "distinct (map fst ?q)"
    using assms(5) by (simp only:)
  then have "map_of ?d' k = (case map_of ?q k of None \<Rightarrow> map_of d k | Some v \<Rightarrow> Some v)" for k
    by (rule map_of_set_fields)
  then have fields: "map_of ?d' k =
      (case map_of patch k of
         None \<Rightarrow> map_of d k
       | Some v \<Rightarrow>
           if k = ''released_date'' \<and> truthy (Some v) then Some (bson (VDate (new_Date L v)))
           else Some (bson v))" for k
    by (simp add: map_of_bson map_of_coerce_date split: option.splits)
  have keep_id: "map_of ?d' ''_id'' = Some (VId i)"
    using assms(4,7) by (simp add: fields)
  have at_d: "updateOne L (d # post) (VId i) ?p =
                Inr (?d' # post, 1, if ?d' = d then 0 else 1)"
    using assms(4) keep_id by (simp add: plain)
  have upd: "updateOne L products (VId i) ?p =
               Inr (pre @ ?d' # post, 1, if ?d' = d then 0 else 1)"
    using assms(3) by (simp add: assms(2) updateOne_append at_d del: updateOne.simps)
  have "updateProduct L ident patch products =
          (pre @ ?d' # post, \<lparr>status = 200, body = UpdateAck 1 (if ?d' = d then 0 else 1)\<rparr>)"
    using valid by (simp add: updateProduct_def assms(1) upd send_def)
  then show ?thesis
    using fields by blast
qed

theorem updateProduct_merges_patch_witness:
  "\<exists>d' n.
     updateProduct sample_lib ''65F0A1B2C3D4E5F601234501''
       [(''title'', VStr ''Trackball''), (''released_date'', VNum 86400000), (''price'', VNum 25)]
       [[(''_id'', VId (ObjectId ''65f0a1b2c3d4e5f601234500''))], sample_product] =
       ([[(''_id'', VId (ObjectId ''65f0a1b2c3d4e5f601234500''))]] @ d' # [],
        \<lparr>status = 200, body = UpdateAck 1 n\<rparr>) \<and>
     map_of d' ''title'' = Some (VStr ''Trackball'') \<and>
     map_of d' ''category'' = Some (VStr ''Accessory'') \<and>
     map_of d' ''released_date'' = Some (VDate (Millis 86400000)) \<and>
     map_of d' ''price'' = Some (VNum 25)"
proof -
  have i: "ObjectId_new ''65F0A1B2C3D4E5F601234501'' = Inr (ObjectId ''65f0a1b2c3d4e5f601234501'')"
    by (simp add: ObjectId_new_def ObjectId_isValid_def is_hex_def ascii_lower_def lower_char_def)
  obtain d' n where
    u: "updateProduct sample_lib ''65F0A1B2C3D4E5F601234501''
          [(''title'', VStr ''Trackball''), (''released_date'', VNum 86400000), (''price'', VNum 25)]
          [[(''_id'', VId (ObjectId ''65f0a1b2c3d4e5f601234500''))], sample_product] =
        ([[(''_id'', VId (ObjectId ''65f0a1b2c3d4e5f601234500''))]] @ d' # [],
         \<lparr>status = 200, body = UpdateAck 1 n\<rparr>)"
    and f: "\<And>k. map_of d' k =
              (case map_of [(''title'', VStr ''Trackball''), (''released_date'', VNum 86400000),
                            (''price'', VNum 25)] k of
                 None \<Rightarrow> map_of sample_product k
               | Some v \<Rightarrow>
                   if k = ''released_date'' \<and> truthy (Some v)
                   then Some (bson (VDate (new_Date sample_lib v)))
                   else Some (bson v))"
    using updateProduct_merges_patch [OF i, of
        "[[(''_id'', VId (ObjectId ''65f0a1b2c3d4e5f601234500''))], sample_product]"
        "[[(''_id'', VId (ObjectId ''65f0a1b2c3d4e5f601234500''))]]" sample_product "[]"
        "[(''title'', VStr ''Trackball''), (''released_date'', VNum 86400000), (''price'', VNum 25)]"
        sample_lib]
    by (auto simp add: sample_product_def plain_name_def)
  have "map_of d' ''title'' = Some (VStr ''Trackball'')"
    "map_of d' ''category'' = Some (VStr ''Accessory'')"
    "map_of d' ''released_date'' = Some (VDate (Millis 86400000))"
    "map_of d' ''price'' = Some (VNum 25)"
    by (simp_all add: f sample_product_def sample_lib_def)
  then show ?thesis
    using u by blast
qed

end
